theory Spec2Isabelle
  imports Main
begin

section \<open>Lichen Social: a shallow embedding of \<^verbatim>\<open>src/main.py\<close>\<close>

text \<open>
  The program is a FastAPI service with five handlers over three relational tables and a
  signed bearer token. Exceptions are values of \<open>exn\<close>, every handler returns
  \<open>exn + result\<close> together with the database session it leaves behind. The token codec
  \<^verbatim>\<open>jose.jwt\<close>, the password hasher \<^verbatim>\<open>passlib\<close> and the clock are parameters of the
  functions that call them; of SQLAlchemy's session the model has what \<^verbatim>\<open>execute\<close>
  does with the calls that the handlers make.
\<close>

subsection \<open>Python values and the builtins \<^verbatim>\<open>str\<close> and \<^verbatim>\<open>int\<close>\<close>

text \<open>
  Text is \<open>string\<close>, read as code points below 256. The values a decoded token payload
  can hold are those of JSON, plus the \<^verbatim>\<open>datetime\<close> that
  \<^verbatim>\<open>create_access_token\<close> stores under \<^verbatim>\<open>exp\<close> (microseconds since the epoch).
  JSON numbers with a fraction are left out; \<open>PObject\<close> stands for lists and dicts.
  Integers are unbounded, as Python's are. The cap that recent Python versions put on the
  number of digits in a conversion between \<^verbatim>\<open>int\<close> and \<^verbatim>\<open>str\<close> (4300 by default) is
  not modelled: the integers converted here are row ids of the store.
\<close>

datatype pyval =
    PNone
  | PBool bool
  | PInt int
  | PStr string
  | PDatetime int
  | PObject

datatype exn =
    HTTPException int "string option"
  | TypeError
  | ValueError
  | ArgumentError

type_synonym 'a result = "exn + 'a"

definition is_None :: "pyval \<Rightarrow> bool" where
  "is_None v = (v = PNone)"

definition is_digit :: "char \<Rightarrow> bool" where
  "is_digit c = ((48::nat) \<le> of_char c \<and> of_char c \<le> (57::nat))"

definition digit_val :: "char \<Rightarrow> nat" where
  "digit_val c = of_char c - (48::nat)"

definition digit_char :: "nat \<Rightarrow> char" where
  "digit_char d = char_of (48 + d)"

text \<open>
  The characters \<^verbatim>\<open>int\<close> skips around a literal: tab, line feed, vertical tab, form
  feed, carriage return, space, and in the Latin-1 range U+0085 and U+00A0.
\<close>

definition is_space :: "char \<Rightarrow> bool" where
  "is_space c = (of_char c \<in> {9, 10, 11, 12, 13, 32, 133, 160 :: nat})"

definition strip :: "string \<Rightarrow> string" where
  "strip s = rev (dropWhile is_space (rev (dropWhile is_space s)))"

text \<open>\<^verbatim>\<open>str(n)\<close> for a non-negative \<open>n\<close>: its decimal digits, most significant first.\<close>

function str_nat :: "nat \<Rightarrow> string" where
  "str_nat n = (if n < 10 then [digit_char n] else str_nat (n div 10) @ [digit_char (n mod 10)])"
  by pat_completeness auto
termination
  by (relation "measure id") auto

declare str_nat.simps [simp del]

definition py_str :: "int \<Rightarrow> string" where
  "py_str i = (if i < 0 then CHR ''-'' # str_nat (nat (- i)) else str_nat (nat i))"

text \<open>
  A decimal literal is a digit followed by digits, each optionally preceded by one
  underscore. \<open>py_digits acc cs\<close> reads what follows a digit.
\<close>

fun py_digits :: "nat \<Rightarrow> string \<Rightarrow> nat option" where
  "py_digits acc [] = Some acc"
| "py_digits acc (c # cs) =
     (if is_digit c then py_digits (10 * acc + digit_val c) cs
      else if c = CHR ''_'' then
        (case cs of
           [] \<Rightarrow> None
         | d # ds \<Rightarrow> if is_digit d then py_digits (10 * acc + digit_val d) ds else None)
      else None)"

definition py_literal :: "string \<Rightarrow> nat option" where
  "py_literal s =
     (case s of
        [] \<Rightarrow> None
      | c # cs \<Rightarrow> if is_digit c then py_digits (digit_val c) cs else None)"

definition int_of_str :: "string \<Rightarrow> int option" where
  "int_of_str s =
     (case strip s of
        [] \<Rightarrow> None
      | c # cs \<Rightarrow>
          if c = CHR ''-'' then map_option (\<lambda>n. - int n) (py_literal cs)
          else if c = CHR ''+'' then map_option int (py_literal cs)
          else map_option int (py_literal (c # cs)))"

text \<open>
  \<^verbatim>\<open>int(v)\<close>: \<^verbatim>\<open>TypeError\<close> for \<^verbatim>\<open>None\<close> and for objects that are no number and
  no text, \<^verbatim>\<open>ValueError\<close> for text that is no literal.
\<close>

fun py_int :: "pyval \<Rightarrow> int result" where
  "py_int PNone = Inl TypeError"
| "py_int (PBool b) = Inr (if b then 1 else 0)"
| "py_int (PInt n) = Inr n"
| "py_int (PStr s) = (case int_of_str s of None \<Rightarrow> Inl ValueError | Some n \<Rightarrow> Inr n)"
| "py_int (PDatetime t) = Inl TypeError"
| "py_int PObject = Inl TypeError"

subsection \<open>Configuration and the token codec\<close>

record config =
  SECRET_KEY :: string
  ACCESS_TOKEN_EXPIRE_MINUTES :: int

definition ALGORITHM :: string where
  "ALGORITHM = ''HS256''"

type_synonym claims = "string \<rightharpoonup> pyval"

text \<open>
  \<^verbatim>\<open>jose.jwt\<close> is an external library. \<open>jwt_encode claims key algorithm\<close> signs;
  \<open>jwt_decode token key algorithms now\<close> verifies at the time \<open>now\<close> and either raises one
  of the \<^verbatim>\<open>JWTError\<close> family or returns the payload.
\<close>

datatype jwt_error = JWTError | ExpiredSignatureError | JWTClaimsError

record jwt_lib =
  jwt_encode :: "claims \<Rightarrow> string \<Rightarrow> string \<Rightarrow> string"
  jwt_decode :: "string \<Rightarrow> string \<Rightarrow> string list \<Rightarrow> int \<Rightarrow> jwt_error + claims"

definition timedelta_minutes :: "int \<Rightarrow> int" where
  "timedelta_minutes m = m * 60 * 1000000"

definition create_access_token :: "jwt_lib \<Rightarrow> config \<Rightarrow> int \<Rightarrow> claims \<Rightarrow> string" where
  "create_access_token lib cfg utcnow data =
     (let to_encode = data;
          expire = utcnow + timedelta_minutes (ACCESS_TOKEN_EXPIRE_MINUTES cfg);
          to_encode = to_encode(''exp'' \<mapsto> PDatetime expire)
      in jwt_encode lib to_encode (SECRET_KEY cfg) ALGORITHM)"

text \<open>
  \<^verbatim>\<open>payload.get("sub")\<close> is \<^verbatim>\<open>None\<close> for a missing key. Only \<^verbatim>\<open>JWTError\<close> is caught;
  whatever \<^verbatim>\<open>int\<close> raises leaves the function as it is.
\<close>

definition dict_get :: "claims \<Rightarrow> string \<Rightarrow> pyval" where
  "dict_get d k = (case d k of None \<Rightarrow> PNone | Some v \<Rightarrow> v)"

definition get_current_user :: "jwt_lib \<Rightarrow> config \<Rightarrow> int \<Rightarrow> string \<Rightarrow> int result" where
  "get_current_user lib cfg utcnow token =
     (case jwt_decode lib token (SECRET_KEY cfg) [ALGORITHM] utcnow of
        Inl e \<Rightarrow> Inl (HTTPException 401 (Some ''Invalid token''))
      | Inr payload \<Rightarrow>
          (case py_int (dict_get payload ''sub'') of
             Inl e \<Rightarrow> Inl e
           | Inr n \<Rightarrow>
               (let user_id = PInt n
                in if is_None user_id then Inl (HTTPException 401 None) else Inr n)))"

subsection \<open>The store and the session\<close>

text \<open>
  The three tables, with the columns that the SQL of the source names. Timestamps are
  microseconds since the epoch.
\<close>

record user_row =
  users_id :: int
  users_username :: string
  users_email :: string
  users_password_hash :: string

record post_row =
  posts_id :: int
  posts_user_id :: int
  posts_content :: string
  posts_created_at :: int

record follow_row =
  follows_follower_id :: int
  follows_following_id :: int

record tables =
  users :: "user_row list"
  posts :: "post_row list"
  follows :: "follow_row list"

text \<open>
  An \<^verbatim>\<open>AsyncSession\<close>: statements read and write \<open>pending\<close>, \<^verbatim>\<open>commit\<close> makes it
  \<open>durable\<close>. \<^verbatim>\<open>get_db\<close> opens a session on the durable tables for one request and
  closes it afterwards, which drops what was not committed.
\<close>

record session =
  pending :: tables
  durable :: tables

definition db_commit :: "session \<Rightarrow> session" where
  "db_commit s = s\<lparr>durable := pending s\<rparr>"

definition get_db :: "(session \<Rightarrow> 'a \<times> session) \<Rightarrow> tables \<Rightarrow> 'a \<times> tables" where
  "get_db handler db =
     (let (r, s) = handler \<lparr>pending = db, durable = db\<rparr> in (r, durable s))"

text \<open>
  \<^verbatim>\<open>AsyncSession.execute(statement, params=None, *, execution_options, bind_arguments)\<close>
  of SQLAlchemy 2. Beside the statement the method takes one positional argument, so a
  call with more of them raises \<^verbatim>\<open>TypeError\<close> before the method runs. The method then
  turns the statement into an executable, and for a plain \<^verbatim>\<open>str\<close> that raises
  \<^verbatim>\<open>sqlalchemy.exc.ArgumentError\<close>: textual SQL has to be wrapped in \<^verbatim>\<open>text\<close>.
  Every statement of this program is a plain \<^verbatim>\<open>str\<close>, hence the type of \<open>statement\<close>;
  \<open>args\<close> are the positional arguments after it. The rows of a result are typed by
  the handler that reads them.
\<close>

definition execute :: "string \<Rightarrow> pyval list \<Rightarrow> session \<Rightarrow> ('row list \<times> session) result" where
  "execute statement args db = (if 1 < length args then Inl TypeError else Inl ArgumentError)"

definition fetchone :: "'a list \<Rightarrow> 'a option" where
  "fetchone rows = (case rows of [] \<Rightarrow> None | r # _ \<Rightarrow> Some r)"

definition fetchall :: "'a list \<Rightarrow> 'a list" where
  "fetchall rows = rows"

subsection \<open>The password hasher\<close>

text \<open>
  \<^verbatim>\<open>pwd_context\<close> is \<^verbatim>\<open>passlib\<close>'s bcrypt context, an external library: \<open>ctx_hash\<close> is
  the digest a call to \<^verbatim>\<open>hash\<close> returns (the salt it draws included), \<open>ctx_verify\<close>
  its \<^verbatim>\<open>verify\<close>.
\<close>

record pwd_context =
  ctx_hash :: "string \<Rightarrow> string"
  ctx_verify :: "string \<Rightarrow> string \<Rightarrow> bool"

definition verify_password :: "pwd_context \<Rightarrow> string \<Rightarrow> string \<Rightarrow> bool" where
  "verify_password ctx plain hashed = ctx_verify ctx plain hashed"

definition get_password_hash :: "pwd_context \<Rightarrow> string \<Rightarrow> string" where
  "get_password_hash ctx pw = ctx_hash ctx pw"

subsection \<open>The routes\<close>

record UserCreate =
  username :: string
  email :: string
  password :: string

record PostCreate =
  content :: string

record OAuth2PasswordRequestForm =
  form_username :: string
  form_password :: string

record token_response =
  access_token :: string
  token_type :: string

record post_response =
  new_post_id :: int
  new_post_content :: string
  new_post_created_at :: int

record feed_item =
  item_id :: int
  item_content :: string
  item_user_id :: int
  item_created_at :: int

text \<open>
  The two characters of the welcome message that lie beyond U+00FF, an en dash and an
  emoji, are written as their UTF-8 bytes.
\<close>

definition user_created_msg :: string where
  "user_created_msg =
     ''User created '' @ [CHR 0xE2, CHR 0x80, CHR 0x93] @ '' welcome to Lichen Social ''
       @ [CHR 0xF0, CHR 0x9F, CHR 0x8C, CHR 0xB1]"

text \<open>
  Each handler hands its SQL to \<^verbatim>\<open>db.execute\<close> as a plain \<^verbatim>\<open>str\<close>, followed by the
  values for \<^verbatim>\<open>$1\<close>, \<^verbatim>\<open>$2\<close>, ... as further positional arguments. An exception of
  \<^verbatim>\<open>execute\<close> is caught nowhere and ends the handler.
\<close>

definition register :: "pwd_context \<Rightarrow> UserCreate \<Rightarrow> session \<Rightarrow> string result \<times> session" where
  "register ctx user db =
     (case execute ''SELECT id FROM users WHERE username = $1 OR email = $2''
             [PStr (username user), PStr (email user)] db of
        Inl e \<Rightarrow> (Inl e, db)
      | Inr (result, db1) \<Rightarrow>
          (case fetchone (result :: int list) of
             Some row \<Rightarrow> (Inl (HTTPException 400 (Some ''User already exists'')), db1)
           | None \<Rightarrow>
               (let hashed = get_password_hash ctx (password user)
                in case (execute
                           ''INSERT INTO users (username, email, password_hash) VALUES ($1, $2, $3)''
                           [PStr (username user), PStr (email user), PStr hashed] db1
                         :: (unit list \<times> session) result) of
                     Inl e \<Rightarrow> (Inl e, db1)
                   | Inr (inserted, db2) \<Rightarrow> (Inr user_created_msg, db_commit db2))))"

definition login ::
  "pwd_context \<Rightarrow> jwt_lib \<Rightarrow> config \<Rightarrow> int \<Rightarrow> OAuth2PasswordRequestForm \<Rightarrow> session
     \<Rightarrow> token_response result \<times> session" where
  "login ctx lib cfg utcnow form db =
     (case execute ''SELECT id, password_hash FROM users WHERE username = $1''
             [PStr (form_username form)] db of
        Inl e \<Rightarrow> (Inl e, db)
      | Inr (result, db1) \<Rightarrow>
          (case fetchone (result :: (int \<times> string) list) of
             None \<Rightarrow> (Inl (HTTPException 401 (Some ''Mauvais combo'')), db1)
           | Some user \<Rightarrow>
               if \<not> verify_password ctx (form_password form) (snd user)
               then (Inl (HTTPException 401 (Some ''Mauvais combo'')), db1)
               else
                 (let token = create_access_token lib cfg utcnow
                                [''sub'' \<mapsto> PStr (py_str (fst user))]
                  in (Inr \<lparr>access_token = token, token_type = ''bearer''\<rparr>, db1))))"

text \<open>
  \<^verbatim>\<open>new_post[0]\<close> on the \<^verbatim>\<open>None\<close> that \<^verbatim>\<open>fetchone\<close> gives for an empty result is a
  \<^verbatim>\<open>TypeError\<close>.
\<close>

definition create_post :: "PostCreate \<Rightarrow> int \<Rightarrow> session \<Rightarrow> post_response result \<times> session" where
  "create_post post user_id db =
     (case execute
             ''INSERT INTO posts (user_id, content) VALUES ($1, $2) RETURNING id, created_at''
             [PInt user_id, PStr (content post)] db of
        Inl e \<Rightarrow> (Inl e, db)
      | Inr (result, db1) \<Rightarrow>
          (let db2 = db_commit db1
           in case fetchone (result :: (int \<times> int) list) of
                None \<Rightarrow> (Inl TypeError, db2)
              | Some new_post \<Rightarrow>
                  (Inr \<lparr>new_post_id = fst new_post, new_post_content = content post,
                        new_post_created_at = snd new_post\<rparr>, db2)))"

text \<open>The query of the feed; the line breaks of the source are written as spaces.\<close>

definition feed_query :: string where
  "feed_query =
     ''SELECT p.id, p.content, p.user_id, p.created_at FROM posts p ''
     @ ''JOIN follows f ON p.user_id = f.following_id WHERE f.follower_id = $1 ''
     @ ''ORDER BY p.created_at DESC LIMIT 50''"

definition feed :: "int \<Rightarrow> session \<Rightarrow> feed_item list result \<times> session" where
  "feed user_id db =
     (case execute feed_query [PInt user_id] db of
        Inl e \<Rightarrow> (Inl e, db)
      | Inr (result, db1) \<Rightarrow>
          (let posts = fetchall (result :: (int \<times> string \<times> int \<times> int) list)
           in (Inr (map (\<lambda>(p0, p1, p2, p3).
                           \<lparr>item_id = p0, item_content = p1, item_user_id = p2,
                            item_created_at = p3\<rparr>) posts), db1)))"

definition follow :: "int \<Rightarrow> int \<Rightarrow> session \<Rightarrow> string result \<times> session" where
  "follow target_id user_id db =
     (case (execute
              ''INSERT INTO follows (follower_id, following_id) VALUES ($1, $2) ON CONFLICT DO NOTHING''
              [PInt user_id, PInt target_id] db
            :: (unit list \<times> session) result) of
        Inl e \<Rightarrow> (Inl e, db)
      | Inr (inserted, db1) \<Rightarrow>
          (let db2 = db_commit db1
           in (Inr (''Tu suis maintenant l'utilisateur '' @ py_str target_id), db2)))"

subsection \<open>What the handlers expect of the token codec\<close>

text \<open>
  The part of the contract of \<^verbatim>\<open>jose.jwt\<close> that the round trip of a session token
  rests on: a token made from claims with a text \<open>sub\<close> and an expiry \<open>exp\<close>, decoded with
  the same key and algorithm before the expiry, yields a payload with the same \<open>sub\<close>.
\<close>

definition codec_keeps_sub :: "jwt_lib \<Rightarrow> bool" where
  "codec_keeps_sub lib =
     (\<forall>data key alg now sub expire.
        data ''sub'' = Some (PStr sub) \<longrightarrow> data ''exp'' = Some (PDatetime expire) \<longrightarrow>
        now < expire \<longrightarrow>
        (\<exists>payload. jwt_decode lib (jwt_encode lib data key alg) key [alg] now = Inr payload
                   \<and> payload ''sub'' = Some (PStr sub)))"

text \<open>
  A stand-in for the codec, to run the handlers on concrete tokens: a token is the letter
  \<open>s\<close> followed by the text of \<open>sub\<close>, or the letter \<open>n\<close> when the claims have no text
  \<open>sub\<close>. It neither signs nor expires; it only shows that a codec with the contract
  above exists and gives the handlers payloads to work on.
\<close>

definition plain_encode :: "claims \<Rightarrow> string \<Rightarrow> string \<Rightarrow> string" where
  "plain_encode data key alg =
     (case data ''sub'' of
        Some (PStr sub) \<Rightarrow> CHR ''s'' # sub
      | _ \<Rightarrow> ''n'')"

definition plain_decode :: "string \<Rightarrow> string \<Rightarrow> string list \<Rightarrow> int \<Rightarrow> jwt_error + claims" where
  "plain_decode token key algs now =
     (case token of
        [] \<Rightarrow> Inl JWTError
      | c # rest \<Rightarrow>
          if c = CHR ''s'' then Inr [''sub'' \<mapsto> PStr rest]
          else if c = CHR ''n'' then Inr Map.empty
          else Inl JWTError)"

definition plain_jwt :: jwt_lib where
  "plain_jwt = \<lparr>jwt_encode = plain_encode, jwt_decode = plain_decode\<rparr>"

subsection \<open>Sample data\<close>

text \<open>A configuration with the default secret of the source.\<close>

definition sample_cfg :: config where
  "sample_cfg = \<lparr>SECRET_KEY = ''change-me-in-prod'', ACCESS_TOKEN_EXPIRE_MINUTES = 15\<rparr>"

section \<open>Properties\<close>

subsection \<open>\<^verbatim>\<open>int(str(n))\<close> is \<open>n\<close>\<close>

lemma is_digit_digit_char: "d < 10 \<Longrightarrow> is_digit (digit_char d)"
  by (simp add: is_digit_def digit_char_def)

lemma digit_val_digit_char: "d < 10 \<Longrightarrow> digit_val (digit_char d) = d"
  by (simp add: digit_val_def digit_char_def)

lemma not_space_digit: "is_digit c \<Longrightarrow> \<not> is_space c"
  by (auto simp: is_digit_def is_space_def)

lemma py_digits_snoc:
  "list_all is_digit ds \<Longrightarrow> is_digit d \<Longrightarrow>
   py_digits acc (ds @ [d]) = map_option (\<lambda>v. 10 * v + digit_val d) (py_digits acc ds)"
  by (induction ds arbitrary: acc) auto

lemma str_nat_digits: "list_all is_digit (str_nat n)"
  by (induction n rule: str_nat.induct) (subst str_nat.simps, simp add: is_digit_digit_char)

lemma str_nat_nonempty: "str_nat n \<noteq> []"
  by (subst str_nat.simps) simp

lemma py_literal_snoc:
  "list_all is_digit ds \<Longrightarrow> ds \<noteq> [] \<Longrightarrow> is_digit d \<Longrightarrow>
   py_literal (ds @ [d]) = map_option (\<lambda>v. 10 * v + digit_val d) (py_literal ds)"
  by (cases ds) (auto simp: py_literal_def py_digits_snoc)

lemma py_literal_str_nat: "py_literal (str_nat n) = Some n"
proof (induction n rule: str_nat.induct)
  case (1 n)
  show ?case
  proof (cases "n < 10")
    case True
    then show ?thesis
      by (subst str_nat.simps) (simp add: py_literal_def is_digit_digit_char digit_val_digit_char)
  next
    case False
    with 1 have ih: "py_literal (str_nat (n div 10)) = Some (n div 10)" by simp
    have "py_literal (str_nat (n div 10) @ [digit_char (n mod 10)]) = Some n"
      by (simp add: py_literal_snoc str_nat_digits str_nat_nonempty is_digit_digit_char
            digit_val_digit_char ih)
    with False show ?thesis by (subst str_nat.simps) simp
  qed
qed

lemma strip_id: "s \<noteq> [] \<Longrightarrow> \<not> is_space (hd s) \<Longrightarrow> \<not> is_space (last s) \<Longrightarrow> strip s = s"
proof -
  assume ne: "s \<noteq> []" and h: "\<not> is_space (hd s)" and l: "\<not> is_space (last s)"
  have a: "dropWhile is_space s = s"
    using h by (simp add: dropWhile_eq_self_iff)
  have b: "dropWhile is_space (rev s) = rev s"
    using l ne by (simp add: dropWhile_eq_self_iff hd_rev)
  show ?thesis by (simp add: strip_def a b)
qed

lemma str_nat_hd: "is_digit (hd (str_nat n))"
  using str_nat_digits [of n] str_nat_nonempty [of n] by (cases "str_nat n") simp_all

lemma str_nat_last: "is_digit (last (str_nat n))"
  using str_nat_digits [of n] str_nat_nonempty [of n]
  by (simp add: list_all_iff)

lemma digit_not_sign: "is_digit c \<Longrightarrow> c \<noteq> CHR ''-'' \<and> c \<noteq> CHR ''+''"
  by (auto simp: is_digit_def)

lemma int_of_str_py_str: "int_of_str (py_str i) = Some i"
proof (cases "i < 0")
  case True
  have "strip (CHR ''-'' # str_nat (nat (- i))) = CHR ''-'' # str_nat (nat (- i))"
  proof (rule strip_id)
    show "\<not> is_space (hd (CHR ''-'' # str_nat (nat (- i))))"
      by (simp add: is_space_def)
    show "\<not> is_space (last (CHR ''-'' # str_nat (nat (- i))))"
      by (simp add: str_nat_nonempty not_space_digit str_nat_last)
  qed simp
  with True show ?thesis
    by (simp add: int_of_str_def py_str_def py_literal_str_nat)
next
  case False
  obtain c cs where eq: "str_nat (nat i) = c # cs"
    using str_nat_nonempty [of "nat i"] by (cases "str_nat (nat i)") auto
  have dig: "is_digit c" using str_nat_hd [of "nat i"] eq by simp
  have "strip (str_nat (nat i)) = str_nat (nat i)"
    by (rule strip_id) (simp_all add: str_nat_nonempty not_space_digit str_nat_hd str_nat_last)
  moreover have "py_literal (c # cs) = Some (nat i)"
    using py_literal_str_nat [of "nat i"] eq by simp
  ultimately show ?thesis
    using False eq digit_not_sign [OF dig] by (simp add: int_of_str_def py_str_def)
qed

lemma py_int_raises: "py_int v = Inl e \<Longrightarrow> e = TypeError \<or> e = ValueError"
  by (cases v) (auto split: option.splits)

lemma plain_jwt_keeps_sub: "codec_keeps_sub plain_jwt"
  by (simp add: codec_keeps_sub_def plain_jwt_def plain_encode_def plain_decode_def)

subsection \<open>The session guard\<close>

text \<open>
  C1 (the code departs from the claim). The claim asks for a 401 when the signature
  verifies and \<open>sub\<close> is missing or is no integer. In the code \<^verbatim>\<open>int\<close> runs before the
  test for \<^verbatim>\<open>None\<close> and only \<^verbatim>\<open>JWTError\<close> is caught: for a verified payload without
  \<open>sub\<close> the guard ends in an uncaught \<^verbatim>\<open>TypeError\<close>, for a \<open>sub\<close> whose text is no
  integer literal in an uncaught \<^verbatim>\<open>ValueError\<close>, and in neither case in an
  \<^verbatim>\<open>HTTPException\<close>.
\<close>

theorem get_current_user_bad_sub_uncaught:
  assumes "jwt_decode lib token (SECRET_KEY cfg) [ALGORITHM] now = Inr payload"
  shows "(payload ''sub'' = None \<longrightarrow> get_current_user lib cfg now token = Inl TypeError)
       \<and> (\<forall>s. payload ''sub'' = Some (PStr s) \<and> int_of_str s = None
              \<longrightarrow> get_current_user lib cfg now token = Inl ValueError)"
  using assms by (auto simp: get_current_user_def dict_get_def)

theorem get_current_user_bad_sub_uncaught_witness:
  "jwt_decode plain_jwt ''n'' (SECRET_KEY sample_cfg) [ALGORITHM] 0 = Inr Map.empty
   \<and> get_current_user plain_jwt sample_cfg 0 ''n'' = Inl TypeError
   \<and> jwt_decode plain_jwt ''sabc'' (SECRET_KEY sample_cfg) [ALGORITHM] 0
       = Inr [''sub'' \<mapsto> PStr ''abc'']
   \<and> get_current_user plain_jwt sample_cfg 0 ''sabc'' = Inl ValueError"
proof -
  have a: "jwt_decode plain_jwt ''n'' (SECRET_KEY sample_cfg) [ALGORITHM] 0 = Inr Map.empty"
    by (simp add: plain_jwt_def plain_decode_def)
  have b: "jwt_decode plain_jwt ''sabc'' (SECRET_KEY sample_cfg) [ALGORITHM] 0
             = Inr [''sub'' \<mapsto> PStr ''abc'']"
    by (simp add: plain_jwt_def plain_decode_def)
  have c: "int_of_str ''abc'' = None"
    by (simp add: int_of_str_def strip_def is_space_def py_literal_def is_digit_def)
  show ?thesis
    using a b c get_current_user_bad_sub_uncaught [OF a] get_current_user_bad_sub_uncaught [OF b]
    by simp
qed

text \<open>
  C9. The branch under \<^verbatim>\<open>if user_id is None\<close> is dead: \<^verbatim>\<open>int\<close> either raises or
  returns an integer, which is never \<^verbatim>\<open>None\<close>, so for no codec, configuration, time and
  token does the guard end in the 401 without detail that only this branch raises.
\<close>

theorem none_check_unreachable:
  "(case py_int v of Inl e \<Rightarrow> True | Inr n \<Rightarrow> \<not> is_None (PInt n))
   \<and> get_current_user lib cfg now token \<noteq> Inl (HTTPException 401 None)"
  by (auto simp: get_current_user_def is_None_def split: sum.splits dest: py_int_raises)

text \<open>
  C7. Round trip of a session token: for every user id \<open>uid\<close>, a token that
  \<^verbatim>\<open>create_access_token\<close> makes at time \<open>now\<close> from \<^verbatim>\<open>{"sub": str(uid)}\<close> is resolved
  by the guard to \<open>uid\<close> at every time before the expiry \<open>now\<close> + the configured minutes,
  given a codec that keeps \<open>sub\<close> on unexpired tokens.
\<close>

theorem token_round_trip:
  assumes "codec_keeps_sub lib"
    and "now' < now + timedelta_minutes (ACCESS_TOKEN_EXPIRE_MINUTES cfg)"
  shows "get_current_user lib cfg now'
           (create_access_token lib cfg now [''sub'' \<mapsto> PStr (py_str uid)]) = Inr uid"
proof -
  let ?expire = "now + timedelta_minutes (ACCESS_TOKEN_EXPIRE_MINUTES cfg)"
  let ?data = "[''sub'' \<mapsto> PStr (py_str uid), ''exp'' \<mapsto> PDatetime ?expire]"
  have "?data ''sub'' = Some (PStr (py_str uid))"
    by simp
  moreover have "?data ''exp'' = Some (PDatetime ?expire)"
    by simp
  ultimately obtain payload where
    "jwt_decode lib (jwt_encode lib ?data (SECRET_KEY cfg) ALGORITHM) (SECRET_KEY cfg)
       [ALGORITHM] now' = Inr payload"
    "payload ''sub'' = Some (PStr (py_str uid))"
    using assms unfolding codec_keeps_sub_def by blast
  then show ?thesis
    by (simp add: get_current_user_def create_access_token_def dict_get_def
          int_of_str_py_str is_None_def)
qed

theorem token_round_trip_witness:
  "codec_keeps_sub plain_jwt
   \<and> (5::int) < 0 + timedelta_minutes 15
   \<and> get_current_user plain_jwt \<lparr>SECRET_KEY = ''k'', ACCESS_TOKEN_EXPIRE_MINUTES = 15\<rparr> 5
        (create_access_token plain_jwt \<lparr>SECRET_KEY = ''k'', ACCESS_TOKEN_EXPIRE_MINUTES = 15\<rparr> 0
           [''sub'' \<mapsto> PStr (py_str 42)]) = Inr 42"
  using token_round_trip
    [OF plain_jwt_keeps_sub, of 5 0 "\<lparr>SECRET_KEY = ''k'', ACCESS_TOKEN_EXPIRE_MINUTES = 15\<rparr>" 42]
  by (simp add: timedelta_minutes_def plain_jwt_keeps_sub)

subsection \<open>The handlers and the session\<close>

text \<open>
  C2 (the code departs from the claim). The claim: a registration whose username or email
  is taken fails with 400 "User already exists" and inserts nothing, any other inserts one
  user row and answers with the welcome message. In the code the first statement goes to
  \<^verbatim>\<open>db.execute\<close> with two positional arguments after it, one more than the method
  takes: every registration, whatever the request and the store, ends in an uncaught
  \<^verbatim>\<open>TypeError\<close> with the store as it was. No 400, no row, no welcome message.
\<close>

theorem register_raises_TypeError:
  "register ctx user db = (Inl TypeError, db)
   \<and> get_db (register ctx user) t = (Inl TypeError, t)"
  by (simp add: register_def execute_def get_db_def)

text \<open>
  C3 (the code departs from the claim). The claim: a login with an unknown username and a
  login with a wrong password fail with the same 401 "Mauvais combo". In the code the
  statement goes to \<^verbatim>\<open>db.execute\<close> as a plain \<^verbatim>\<open>str\<close>, which the method refuses: every
  login, whatever the form and the store, ends in an uncaught \<^verbatim>\<open>ArgumentError\<close> and
  none in the 401.
\<close>

theorem login_raises_ArgumentError:
  "login ctx lib cfg utcnow form db = (Inl ArgumentError, db)
   \<and> fst (login ctx lib cfg utcnow form db) \<noteq> Inl (HTTPException 401 (Some ''Mauvais combo''))"
  by (simp add: login_def execute_def)

subsection \<open>The feed\<close>

text \<open>
  C4 (the code departs from the claim). The claim: the feed handler returns at most 50
  posts, each by a followed author, newest first. In the code the query goes to
  \<^verbatim>\<open>db.execute\<close> as a plain \<^verbatim>\<open>str\<close>: for every caller and session the handler ends in
  an uncaught \<^verbatim>\<open>ArgumentError\<close> and returns no list.
\<close>

theorem feed_raises_ArgumentError:
  "fst (feed user_id db) = Inl ArgumentError"
  by (simp add: feed_def execute_def)

text \<open>
  C5 (the code departs from the claim). The claim: a user without a self-follow edge who
  posts and then fetches the feed gets a feed without that post. In the code neither
  request gets through: the post request ends in an uncaught \<^verbatim>\<open>TypeError\<close> and leaves
  the store as it was, and the feed request after it ends in an uncaught
  \<^verbatim>\<open>ArgumentError\<close>, so no feed is returned.
\<close>

theorem own_feed_after_post_raises:
  "get_db (create_post post u) t = (Inl TypeError, t)
   \<and> fst (get_db (feed u) (snd (get_db (create_post post u) t))) = Inl ArgumentError"
  by (simp add: create_post_def feed_def execute_def get_db_def)

text \<open>
  C10. The feed handler leaves the store alone: the session it returns is the session it
  was given, pending and durable tables alike, and a feed request leaves the store as it
  found it.
\<close>

theorem feed_read_only:
  "snd (feed user_id db) = db \<and> snd (get_db (feed user_id) t) = t"
  by (simp add: feed_def execute_def get_db_def)

subsection \<open>Following\<close>

text \<open>
  C6 (the code departs from the claim). The claim: a repeated follow is a silent no-op and
  not an error. In the code the statement goes to \<^verbatim>\<open>db.execute\<close> with two positional
  arguments after it: the first follow request and the second one alike end in an uncaught
  \<^verbatim>\<open>TypeError\<close>, and the store stays as it was, without the edge.
\<close>

theorem follow_twice_raises:
  "get_db (follow target_id user_id) t = (Inl TypeError, t)
   \<and> get_db (follow target_id user_id) (snd (get_db (follow target_id user_id) t))
       = (Inl TypeError, t)"
  by (simp add: follow_def execute_def get_db_def)

text \<open>
  C8 (the code departs from the claim). The claim: for every target id the follow handler
  succeeds with the acknowledgment that echoes the id. In the code the handler ends in an
  uncaught \<^verbatim>\<open>TypeError\<close> for every target id, caller and session, and commits nothing.
\<close>

theorem follow_raises_TypeError:
  "follow target_id user_id db = (Inl TypeError, db)"
  by (simp add: follow_def execute_def)

end
